theory Spec2Isabelle
  imports Complex_Main
begin

section \<open>Numbers, infinity and the two ways a run can leave the real line\<close>

text \<open>
  The script \<^verbatim>\<open>cost_effectiveness_analysis.py\<close> computes with Python numbers. They are
  modelled as exact reals: rounding, overflow and NaN of binary floating point are not
  represented. The one non-finite value the script creates on purpose,
  \<^verbatim>\<open>float('inf')\<close>, is kept apart from the finite values.
\<close>

datatype number = Fin real | PosInf

text \<open>
  \<^verbatim>\<open>ZeroDivisionError\<close> is the exception Python raises for \<^verbatim>\<open>a / 0\<close> and for
  \<^verbatim>\<open>0 ** y\<close> with negative \<^verbatim>\<open>y\<close>. \<^verbatim>\<open>ComplexResult\<close> marks the point where Python's
  \<^verbatim>\<open>**\<close> answers with a complex number (negative base, fractional exponent): the
  model ends the run there, since every value below is a real.
\<close>

datatype stop = ZeroDivisionError | ComplexResult

text \<open>Python's true division \<^verbatim>\<open>a / b\<close>.\<close>

definition true_div :: "real \<Rightarrow> real \<Rightarrow> stop + real" where
  "true_div a b = (if b = 0 then Inl ZeroDivisionError else Inr (a / b))"

text \<open>
  Python's \<^verbatim>\<open>x ** y\<close>. An integral exponent is repeated multiplication (or its
  reciprocal), with \<^verbatim>\<open>x ** 0 == 1\<close> for every base; any other exponent needs a
  positive base, or a zero base with positive exponent.
\<close>

definition py_pow :: "real \<Rightarrow> real \<Rightarrow> stop + real" where
  "py_pow x y =
     (if y = of_int \<lfloor>y\<rfloor> then
        (if x = 0 \<and> y < 0 then Inl ZeroDivisionError else Inr (power_int x \<lfloor>y\<rfloor>))
      else if 0 < x then Inr (x powr y)
      else if x = 0 then (if 0 < y then Inr 0 else Inl ZeroDivisionError)
      else Inl ComplexResult)"

section \<open>The four formulas\<close>

text \<open>\<^verbatim>\<open>def total_cost(base_cost, visits, visit_cost, tests, test_cost)\<close>\<close>

definition total_cost :: "real \<Rightarrow> real \<Rightarrow> real \<Rightarrow> real \<Rightarrow> real \<Rightarrow> real" where
  "total_cost base_cost visits visit_cost tests test_cost =
     base_cost + (visits * visit_cost) + (tests * test_cost)"

text \<open>\<^verbatim>\<open>def discount_value(value, rate, years): return value / ((1 + rate) ** years)\<close>\<close>

definition discount_value :: "real \<Rightarrow> real \<Rightarrow> real \<Rightarrow> stop + real" where
  "discount_value v rate yrs =
     (case py_pow (1 + rate) yrs of
        Inl e \<Rightarrow> Inl e
      | Inr p \<Rightarrow> true_div v p)"

text \<open>\<^verbatim>\<open>def calculate_cost_per_qaly(cost, qaly)\<close>: the guard comes before the division.\<close>

definition calculate_cost_per_qaly :: "real \<Rightarrow> real \<Rightarrow> stop + number" where
  "calculate_cost_per_qaly cost qaly =
     (if qaly = 0 then Inr PosInf
      else map_sum id Fin (true_div cost qaly))"

text \<open>\<^verbatim>\<open>def calculate_icer(cost1, cost2, qaly1, qaly2)\<close>\<close>

definition calculate_icer :: "real \<Rightarrow> real \<Rightarrow> real \<Rightarrow> real \<Rightarrow> stop + number" where
  "calculate_icer cost1 cost2 qaly1 qaly2 =
     (let delta_cost = \<bar>cost1 - cost2\<bar>;
          delta_qaly = qaly1 - qaly2
      in if delta_qaly = 0 then Inr PosInf
         else map_sum id Fin (true_div delta_cost delta_qaly))"

section \<open>The script\<close>

text \<open>The module constants the script starts from (source lines 22 to 43).\<close>

record params =
  cost_intervention_A :: real
  cost_intervention_B :: real
  qaly_intervention_A :: real
  qaly_intervention_B :: real
  cost_per_outpatient_visit :: real
  cost_per_test :: real
  number_of_visits_A :: real
  number_of_tests_A :: real
  number_of_visits_B :: real
  number_of_tests_B :: real
  discount_rate :: real
  years :: real
  wtp :: real

definition base_case :: params where
  "base_case =
     \<lparr>cost_intervention_A = 46734, cost_intervention_B = 45447,
      qaly_intervention_A = 3.57, qaly_intervention_B = 3.46,
      cost_per_outpatient_visit = 0, cost_per_test = 0,
      number_of_visits_A = 0, number_of_tests_A = 0,
      number_of_visits_B = 0, number_of_tests_B = 0,
      discount_rate = 0, years = 0, wtp = 20000\<rparr>"

text \<open>
  The same constants with discounting switched on, at the rate the comment on source
  line 39 quotes (3.5 percent) over five years.
\<close>

definition discounting_case :: params where
  "discounting_case = base_case\<lparr>discount_rate := 0.035, years := 5\<rparr>"

text \<open>The variables assigned by source lines 77 to 87.\<close>

record analysis =
  total_cost_A :: real
  total_cost_B :: real
  discounted_cost_A :: real
  discounted_cost_B :: real
  cost_per_qaly_A :: number
  cost_per_qaly_B :: number
  icer :: number

text \<open>
  Lines 77 to 87 in their order; an exception in one assignment ends the run, so none of
  the later ones happens.
\<close>

definition analyse :: "params \<Rightarrow> stop + analysis" where
  "analyse p =
     (let tc_A = total_cost (cost_intervention_A p) (number_of_visits_A p)
                   (cost_per_outpatient_visit p) (number_of_tests_A p) (cost_per_test p);
          tc_B = total_cost (cost_intervention_B p) (number_of_visits_B p)
                   (cost_per_outpatient_visit p) (number_of_tests_B p) (cost_per_test p)
      in case discount_value tc_A (discount_rate p) (years p) of
           Inl e \<Rightarrow> Inl e
         | Inr dc_A \<Rightarrow>
      (case discount_value tc_B (discount_rate p) (years p) of
           Inl e \<Rightarrow> Inl e
         | Inr dc_B \<Rightarrow>
      (case calculate_cost_per_qaly dc_A (qaly_intervention_A p) of
           Inl e \<Rightarrow> Inl e
         | Inr cpq_A \<Rightarrow>
      (case calculate_cost_per_qaly dc_B (qaly_intervention_B p) of
           Inl e \<Rightarrow> Inl e
         | Inr cpq_B \<Rightarrow>
      (case calculate_icer dc_A dc_B (qaly_intervention_A p) (qaly_intervention_B p) of
           Inl e \<Rightarrow> Inl e
         | Inr ratio \<Rightarrow>
             Inr \<lparr>total_cost_A = tc_A, total_cost_B = tc_B,
                  discounted_cost_A = dc_A, discounted_cost_B = dc_B,
                  cost_per_qaly_A = cpq_A, cost_per_qaly_B = cpq_B,
                  icer = ratio\<rparr>)))))"

subsection \<open>Printing\<close>

text \<open>
  \<^verbatim>\<open>"{:.2f}".format(x)\<close> prints \<^verbatim>\<open>x\<close> rounded to two decimals, a tie going to the even
  neighbour, and prints \<^verbatim>\<open>inf\<close> for infinity. The printed digits are represented by the
  number of hundredths they denote (the sign Python prints before a zero is not kept).
\<close>

definition round_half_even :: "real \<Rightarrow> int" where
  "round_half_even x =
     (let f = \<lfloor>x\<rfloor>; d = x - of_int f
      in if d < 1 / 2 then f
         else if 1 / 2 < d then f + 1
         else if even f then f else f + 1)"

datatype shown = Hundredths int | InfText

fun format_2f :: "number \<Rightarrow> shown" where
  "format_2f (Fin x) = Hundredths (round_half_even (x * 100))"
| "format_2f PosInf = InfText"

text \<open>The five printed lines (source lines 92 to 96), each as the numbers it shows.\<close>

definition print_results :: "analysis \<Rightarrow> shown list list" where
  "print_results r =
     [[format_2f (Fin (total_cost_A r)), format_2f (Fin (discounted_cost_A r))],
      [format_2f (Fin (total_cost_B r)), format_2f (Fin (discounted_cost_B r))],
      [format_2f (cost_per_qaly_A r)],
      [format_2f (cost_per_qaly_B r)],
      [format_2f (icer r)]]"

subsection \<open>The summary table\<close>

text \<open>
  A pandas \<^verbatim>\<open>DataFrame\<close> built from a dict of columns and an index: the row labels and
  the columns in their order, every column holding one cell per row.
\<close>

record dataframe =
  df_index :: "string list"
  df_columns :: "(string \<times> number list) list"

text \<open>
  Source lines 104, 105 and 151 to 155. The plotting between them draws from these
  values and changes none of them; it is not part of the model.
\<close>

definition df :: "params \<Rightarrow> analysis \<Rightarrow> dataframe" where
  "df p r =
     (let delta_cost = discounted_cost_A r - discounted_cost_B r;
          delta_qaly = qaly_intervention_A p - qaly_intervention_B p
      in \<lparr>df_index = [''Intervention A'', ''Intervention B''],
          df_columns =
            [(''Costs'', [Fin (discounted_cost_A r), Fin (discounted_cost_B r)]),
             (''QALYs'', [Fin (qaly_intervention_A p), Fin (qaly_intervention_B p)]),
             (''Incremental costs'', [Fin delta_cost, Fin 0]),
             (''Incremental QALY'', [Fin delta_qaly, Fin 0]),
             (''ICER'', [icer r, Fin 0])]\<rparr>)"

text \<open>The whole run: the analysis, then what is printed and the table.\<close>

definition script :: "params \<Rightarrow> stop + (shown list list \<times> dataframe)" where
  "script p =
     (case analyse p of
        Inl e \<Rightarrow> Inl e
      | Inr r \<Rightarrow> Inr (print_results r, df p r))"

text \<open>Reading one cell by row label and column name, as \<^verbatim>\<open>df.loc[row, col]\<close> does.\<close>

fun position :: "string \<Rightarrow> string list \<Rightarrow> nat option" where
  "position l [] = None"
| "position l (x # xs) = (if x = l then Some 0 else map_option Suc (position l xs))"

definition loc :: "dataframe \<Rightarrow> string \<Rightarrow> string \<Rightarrow> number option" where
  "loc d row col =
     (case position row (df_index d) of
        None \<Rightarrow> None
      | Some i \<Rightarrow>
          (case map_of (df_columns d) col of
             None \<Rightarrow> None
           | Some cells \<Rightarrow> (if i < length cells then Some (cells ! i) else None)))"

section \<open>Properties of the formulas\<close>

lemma true_div_nonzero: "b \<noteq> 0 \<Longrightarrow> true_div a b = Inr (a / b)"
  by (simp add: true_div_def)

text \<open>
  C1. For all arguments, \<^verbatim>\<open>calculate_icer\<close> returns positive infinity when the two QALY
  values are equal, and otherwise the absolute cost difference divided by the signed
  QALY difference.
\<close>

theorem calculate_icer_formula:
  "calculate_icer cost1 cost2 qaly1 qaly2 =
     Inr (if qaly1 = qaly2 then PosInf else Fin (\<bar>cost1 - cost2\<bar> / (qaly1 - qaly2)))"
  by (simp add: calculate_icer_def Let_def true_div_nonzero)

text \<open>
  C3. For all arguments, \<^verbatim>\<open>calculate_cost_per_qaly\<close> returns positive infinity when the
  QALY value is zero and \<^verbatim>\<open>cost / qaly\<close> otherwise; it never raises, in particular not
  \<^verbatim>\<open>ZeroDivisionError\<close>.
\<close>

theorem calculate_cost_per_qaly_formula:
  "calculate_cost_per_qaly cost qaly = Inr (if qaly = 0 then PosInf else Fin (cost / qaly))
   \<and> calculate_cost_per_qaly cost qaly \<noteq> Inl e"
  by (simp add: calculate_cost_per_qaly_def true_div_nonzero)

text \<open>
  C9. Both ratio functions return a value for all real arguments: the guard on the
  denominator is tested before the division, so \<^verbatim>\<open>ZeroDivisionError\<close> cannot come out.
  With a zero numerator over a zero denominator (zero cost with zero QALY, or equal costs
  with equal QALYs) the answer is positive infinity.
\<close>

theorem guarded_divisions_total:
  "(\<exists>v. calculate_cost_per_qaly cost qaly = Inr v)
   \<and> (\<exists>v. calculate_icer cost1 cost2 qaly1 qaly2 = Inr v)
   \<and> calculate_cost_per_qaly cost qaly \<noteq> Inl ZeroDivisionError
   \<and> calculate_icer cost1 cost2 qaly1 qaly2 \<noteq> Inl ZeroDivisionError
   \<and> calculate_cost_per_qaly 0 0 = Inr PosInf
   \<and> calculate_icer cost cost qaly qaly = Inr PosInf"
  by (simp add: calculate_cost_per_qaly_def calculate_icer_def Let_def true_div_nonzero)

text \<open>
  C10. Exchanging the two cost arguments of \<^verbatim>\<open>calculate_icer\<close> never changes the
  result; and when the costs differ and the QALYs differ, the result is finite and has
  the sign of \<^verbatim>\<open>qaly1 - qaly2\<close>.
\<close>

theorem calculate_icer_cost_swap:
  "calculate_icer c1 c2 q1 q2 = calculate_icer c2 c1 q1 q2
   \<and> (c1 \<noteq> c2 \<longrightarrow> q1 \<noteq> q2 \<longrightarrow>
        (\<exists>x. calculate_icer c1 c2 q1 q2 = Inr (Fin x) \<and> sgn x = sgn (q1 - q2)))"
  by (simp add: calculate_icer_def Let_def true_div_nonzero abs_minus_commute)

theorem calculate_icer_cost_swap_witness:
  "(2::real) \<noteq> 5 \<and> (1::real) \<noteq> 3 \<and> calculate_icer 2 5 1 3 = calculate_icer 5 2 1 3
   \<and> calculate_icer 2 5 1 3 = Inr (Fin (- (3 / 2))) \<and> sgn (- (3 / 2) :: real) = sgn (1 - 3)"
  using calculate_icer_cost_swap [of 2 5 1 3] by (simp add: calculate_icer_def true_div_def)

text \<open>
  C4, as the spec states it, fails: with costs 2, 1 and QALYs 2, 1 the ICER is 1;
  exchanging both pairs gives a different result (it is -1), and exchanging the costs
  alone does not give -1 (the result stays 1).
\<close>

theorem calculate_icer_swap_counterexample:
  "calculate_icer 2 1 2 1 = Inr (Fin 1)
   \<and> calculate_icer 1 2 1 2 \<noteq> calculate_icer 2 1 2 1
   \<and> calculate_icer 1 2 2 1 \<noteq> Inr (Fin (- 1))"
  by (simp add: calculate_icer_def true_div_def)

text \<open>
  C4, amended. For different QALY values the ICER is finite; exchanging the two costs
  alone leaves it unchanged, while exchanging the two QALYs, alone or together with the
  costs, negates it.
\<close>

theorem calculate_icer_swaps:
  "q1 \<noteq> q2 \<Longrightarrow>
     calculate_icer c1 c2 q1 q2 = Inr (Fin (\<bar>c1 - c2\<bar> / (q1 - q2)))
     \<and> calculate_icer c2 c1 q1 q2 = Inr (Fin (\<bar>c1 - c2\<bar> / (q1 - q2)))
     \<and> calculate_icer c1 c2 q2 q1 = Inr (Fin (- (\<bar>c1 - c2\<bar> / (q1 - q2))))
     \<and> calculate_icer c2 c1 q2 q1 = Inr (Fin (- (\<bar>c1 - c2\<bar> / (q1 - q2))))"
proof -
  assume neq: "q1 \<noteq> q2"
  have flip: "\<bar>c1 - c2\<bar> / (q2 - q1) = - (\<bar>c1 - c2\<bar> / (q1 - q2))"
    by (simp only: minus_divide_right minus_diff_eq)
  have sym: "\<bar>c2 - c1\<bar> = \<bar>c1 - c2\<bar>"
    by (rule abs_minus_commute)
  from neq show ?thesis
    by (simp add: calculate_icer_def Let_def true_div_nonzero flip sym)
qed

theorem calculate_icer_swaps_witness:
  "(2::real) \<noteq> 1
   \<and> calculate_icer 5 3 2 1 = Inr (Fin 2) \<and> calculate_icer 3 5 2 1 = Inr (Fin 2)
   \<and> calculate_icer 5 3 1 2 = Inr (Fin (- 2)) \<and> calculate_icer 3 5 1 2 = Inr (Fin (- 2))"
  using calculate_icer_swaps [of 2 1 5 3] by simp

text \<open>
  C5. \<^verbatim>\<open>total_cost\<close> is the base cost plus visits times visit cost plus tests times test
  cost; with no visits and no tests it is the base cost; and it is non-negative when all
  five arguments are.
\<close>

theorem total_cost_formula:
  "total_cost b v vc t tc = b + v * vc + t * tc
   \<and> total_cost b 0 0 0 0 = b
   \<and> (0 \<le> b \<and> 0 \<le> v \<and> 0 \<le> vc \<and> 0 \<le> t \<and> 0 \<le> tc \<longrightarrow> 0 \<le> total_cost b v vc t tc)"
  by (simp add: total_cost_def)

theorem total_cost_formula_witness:
  "(0::real) \<le> 100 \<and> (0::real) \<le> 3 \<and> (0::real) \<le> 20 \<and> (0::real) \<le> 2 \<and> (0::real) \<le> 15
   \<and> total_cost 100 3 20 2 15 = 190 \<and> total_cost 100 0 0 0 0 = 100
   \<and> (0::real) \<le> total_cost 100 3 20 2 15"
  using total_cost_formula [of 100 3 20 2 15] by simp

subsection \<open>Discounting\<close>

lemma py_pow_zero_exponent: "py_pow x 0 = Inr 1"
  by (simp add: py_pow_def)

lemma py_pow_one_base: "py_pow 1 y = Inr 1"
  by (simp add: py_pow_def)

lemma py_pow_positive_base:
  assumes "0 < x"
  shows "py_pow x y = Inr (x powr y)"
proof (cases "y = of_int \<lfloor>y\<rfloor>")
  case True
  then obtain n :: int where n: "y = of_int n" ..
  have "x powr of_int n = power_int x n"
    using assms by (simp add: powr_real_of_int')
  with n assms show ?thesis
    by (simp add: py_pow_def)
next
  case False
  with assms show ?thesis by (simp add: py_pow_def)
qed

lemma discount_value_positive_base:
  "- 1 < rate \<Longrightarrow> discount_value v rate yrs = Inr (v / (1 + rate) powr yrs)"
  by (simp add: discount_value_def py_pow_positive_base true_div_def)

text \<open>
  C6. \<^verbatim>\<open>discount_value\<close> is the identity on the value when the rate is zero (for every
  number of years) and when the number of years is zero (for every rate, the
  non-negative ones among them); for a non-negative rate it returns the value divided by
  \<^verbatim>\<open>1 + rate\<close> to the power \<^verbatim>\<open>years\<close>.
\<close>

theorem discount_value_identity:
  "discount_value v 0 y = Inr v
   \<and> discount_value v r 0 = Inr v
   \<and> (0 \<le> r \<longrightarrow> discount_value v r y = Inr (v / (1 + r) powr y))"
  by (simp add: discount_value_def py_pow_zero_exponent py_pow_one_base
      py_pow_positive_base true_div_def)

theorem discount_value_identity_witness:
  "(0::real) \<le> 7 / 200 \<and> discount_value 46734 0 5 = Inr 46734
   \<and> discount_value 46734 (7 / 200) 0 = Inr 46734
   \<and> discount_value 46734 (7 / 200) 5 = Inr (46734 / (207 / 200) ^ 5)"
  using discount_value_identity [of 46734 5 "7 / 200"] by simp

section \<open>Properties of the script\<close>

lemma analyse_base_case:
  "analyse base_case =
     Inr \<lparr>total_cost_A = 46734, total_cost_B = 45447,
          discounted_cost_A = 46734, discounted_cost_B = 45447,
          cost_per_qaly_A = Fin (46734 / 3.57), cost_per_qaly_B = Fin (45447 / 3.46),
          icer = Fin 11700\<rparr>"
  by (simp add: analyse_def base_case_def total_cost_def discount_value_def
      py_pow_zero_exponent true_div_def calculate_cost_per_qaly_def calculate_icer_def)

text \<open>
  C2, as the spec states it, fails: the base case runs to its end, but the cost per QALY
  of intervention A is not printed as 13091.60 and that of intervention B is not printed
  as 13134.68.
\<close>

theorem base_case_counterexample:
  "\<not> isl (analyse base_case)
   \<and> format_2f (cost_per_qaly_A (projr (analyse base_case))) \<noteq> Hundredths 1309160
   \<and> format_2f (cost_per_qaly_B (projr (analyse base_case))) \<noteq> Hundredths 1313468"
  by (simp add: analyse_base_case round_half_even_def Let_def)

text \<open>
  C2, amended. With the literal base-case constants the run yields total costs 46734 and
  45447, discounted costs equal to them, cost per QALY 46734 / 3.57 and 45447 / 3.46,
  and ICER 1287 / 0.11 = 11700; the five lines print 46734.00 twice, 45447.00 twice,
  13090.76, 13134.97 and 11700.00.
\<close>

theorem base_case_results:
  "analyse base_case =
     Inr \<lparr>total_cost_A = 46734, total_cost_B = 45447,
          discounted_cost_A = 46734, discounted_cost_B = 45447,
          cost_per_qaly_A = Fin (46734 / 3.57), cost_per_qaly_B = Fin (45447 / 3.46),
          icer = Fin (1287 / 0.11)\<rparr>
   \<and> (1287 / 0.11 :: real) = 11700
   \<and> map_sum id fst (script base_case) =
       Inr [[Hundredths 4673400, Hundredths 4673400],
            [Hundredths 4544700, Hundredths 4544700],
            [Hundredths 1309076],
            [Hundredths 1313497],
            [Hundredths 1170000]]"
  by (simp add: analyse_base_case script_def print_results_def round_half_even_def Let_def)

subsection \<open>What is discounted\<close>

text \<open>A rate above -1 makes the base of the power positive, and the run reaches its end.\<close>

lemma analyse_succeeds:
  assumes "- 1 < discount_rate p"
  shows "\<exists>r. analyse p = Inr r"
proof -
  have nz: "(1 + discount_rate p) powr years p \<noteq> 0"
    using assms by simp
  show ?thesis
    using assms nz
    by (simp add: analyse_def Let_def discount_value_positive_base
        calculate_cost_per_qaly_def calculate_icer_def true_div_nonzero)
qed

lemma analyse_dataflow:
  assumes "analyse p = Inr r"
  shows "total_cost_A r = total_cost (cost_intervention_A p) (number_of_visits_A p)
                            (cost_per_outpatient_visit p) (number_of_tests_A p) (cost_per_test p)"
    and "total_cost_B r = total_cost (cost_intervention_B p) (number_of_visits_B p)
                            (cost_per_outpatient_visit p) (number_of_tests_B p) (cost_per_test p)"
    and "discount_value (total_cost_A r) (discount_rate p) (years p) = Inr (discounted_cost_A r)"
    and "discount_value (total_cost_B r) (discount_rate p) (years p) = Inr (discounted_cost_B r)"
    and "calculate_cost_per_qaly (discounted_cost_A r) (qaly_intervention_A p)
           = Inr (cost_per_qaly_A r)"
    and "calculate_cost_per_qaly (discounted_cost_B r) (qaly_intervention_B p)
           = Inr (cost_per_qaly_B r)"
    and "calculate_icer (discounted_cost_A r) (discounted_cost_B r)
           (qaly_intervention_A p) (qaly_intervention_B p) = Inr (icer r)"
  using assms
  by (auto simp add: analyse_def Let_def split: sum.splits)

lemma analyse_discounting_case:
  "analyse discounting_case =
     Inr \<lparr>total_cost_A = 46734, total_cost_B = 45447,
          discounted_cost_A = 46734 / 1.035 ^ 5, discounted_cost_B = 45447 / 1.035 ^ 5,
          cost_per_qaly_A = Fin (46734 / 1.035 ^ 5 / 3.57),
          cost_per_qaly_B = Fin (45447 / 1.035 ^ 5 / 3.46),
          icer = Fin (\<bar>46734 / 1.035 ^ 5 - 45447 / 1.035 ^ 5\<bar> / (3.57 - 3.46))\<rparr>"
  by (simp add: analyse_def discounting_case_def base_case_def total_cost_def discount_value_def
      py_pow_def true_div_def calculate_cost_per_qaly_def calculate_icer_def)

text \<open>
  C7. In a run that reaches its end (every run with a rate above -1 does), each discounted
  cost is \<^verbatim>\<open>discount_value\<close> of that intervention's total cost at the one shared rate and
  horizon; the cost per QALY and the ICER are computed from the discounted costs; and the
  QALY arguments they receive are the input QALYs themselves, never a discounted value.
\<close>

theorem discounting_reaches_costs_only:
  "(- 1 < discount_rate p \<longrightarrow> (\<exists>r. analyse p = Inr r))
   \<and> (\<forall>r. analyse p = Inr r \<longrightarrow>
        discount_value
          (total_cost (cost_intervention_A p) (number_of_visits_A p)
             (cost_per_outpatient_visit p) (number_of_tests_A p) (cost_per_test p))
          (discount_rate p) (years p) = Inr (discounted_cost_A r)
        \<and> discount_value
          (total_cost (cost_intervention_B p) (number_of_visits_B p)
             (cost_per_outpatient_visit p) (number_of_tests_B p) (cost_per_test p))
          (discount_rate p) (years p) = Inr (discounted_cost_B r)
        \<and> calculate_cost_per_qaly (discounted_cost_A r) (qaly_intervention_A p)
            = Inr (cost_per_qaly_A r)
        \<and> calculate_cost_per_qaly (discounted_cost_B r) (qaly_intervention_B p)
            = Inr (cost_per_qaly_B r)
        \<and> calculate_icer (discounted_cost_A r) (discounted_cost_B r)
            (qaly_intervention_A p) (qaly_intervention_B p) = Inr (icer r))"
  using analyse_succeeds [of p] analyse_dataflow [of p] by simp

theorem discounting_reaches_costs_only_witness:
  "- 1 < discount_rate discounting_case
   \<and> (\<exists>r. analyse discounting_case = Inr r)
   \<and> discount_value (total_cost 46734 0 0 0 0) 0.035 5 = Inr (46734 / 1.035 ^ 5)
   \<and> discount_value (total_cost 45447 0 0 0 0) 0.035 5 = Inr (45447 / 1.035 ^ 5)
   \<and> calculate_cost_per_qaly (46734 / 1.035 ^ 5) 3.57 = Inr (Fin (46734 / 1.035 ^ 5 / 3.57))
   \<and> calculate_cost_per_qaly (45447 / 1.035 ^ 5) 3.46 = Inr (Fin (45447 / 1.035 ^ 5 / 3.46))
   \<and> calculate_icer (46734 / 1.035 ^ 5) (45447 / 1.035 ^ 5) 3.57 3.46
       = Inr (Fin (\<bar>46734 / 1.035 ^ 5 - 45447 / 1.035 ^ 5\<bar> / (3.57 - 3.46)))"
  using discounting_reaches_costs_only [of discounting_case]
  by (simp add: analyse_discounting_case) (simp add: discounting_case_def base_case_def)

subsection \<open>The rows of the table\<close>

lemma df_row_B:
  "loc (df p r) ''Intervention B'' ''Incremental costs'' = Some (Fin 0)"
  "loc (df p r) ''Intervention B'' ''Incremental QALY'' = Some (Fin 0)"
  "loc (df p r) ''Intervention B'' ''ICER'' = Some (Fin 0)"
  by (simp_all add: loc_def df_def Let_def)

lemma df_row_A:
  "loc (df p r) ''Intervention A'' ''Incremental costs''
     = Some (Fin (discounted_cost_A r - discounted_cost_B r))"
  "loc (df p r) ''Intervention A'' ''Incremental QALY''
     = Some (Fin (qaly_intervention_A p - qaly_intervention_B p))"
  "loc (df p r) ''Intervention A'' ''ICER'' = Some (icer r)"
  by (simp_all add: loc_def df_def Let_def)

lemma script_succeeds:
  "- 1 < discount_rate p \<Longrightarrow> \<exists>out t. script p = Inr (out, t)"
  using analyse_succeeds [of p] by (auto simp add: script_def)

lemma script_table:
  "script p = Inr (out, t) \<Longrightarrow> \<exists>r. analyse p = Inr r \<and> t = df p r"
  by (auto simp add: script_def split: sum.splits)

text \<open>
  C8. Whatever the inputs, the table a run builds (every run with a rate above -1 builds
  one) has 0 in the columns Incremental costs, Incremental QALY and ICER of the row
  Intervention B; the row Intervention A holds the difference of the discounted costs,
  the difference of the QALYs and the ICER.
\<close>

theorem summary_table_rows:
  "(- 1 < discount_rate p \<longrightarrow> (\<exists>out t. script p = Inr (out, t)))
   \<and> (\<forall>out t. script p = Inr (out, t) \<longrightarrow>
        loc t ''Intervention B'' ''Incremental costs'' = Some (Fin 0)
        \<and> loc t ''Intervention B'' ''Incremental QALY'' = Some (Fin 0)
        \<and> loc t ''Intervention B'' ''ICER'' = Some (Fin 0)
        \<and> (\<exists>r. analyse p = Inr r
             \<and> loc t ''Intervention A'' ''Incremental costs''
                 = Some (Fin (discounted_cost_A r - discounted_cost_B r))
             \<and> loc t ''Intervention A'' ''Incremental QALY''
                 = Some (Fin (qaly_intervention_A p - qaly_intervention_B p))
             \<and> loc t ''Intervention A'' ''ICER'' = Some (icer r)))"
proof (intro conjI allI impI)
  assume "- 1 < discount_rate p"
  then show "\<exists>out t. script p = Inr (out, t)" by (rule script_succeeds)
next
  fix out t
  assume run: "script p = Inr (out, t)"
  then obtain r where r: "analyse p = Inr r" and t: "t = df p r"
    using script_table by blast
  show "loc t ''Intervention B'' ''Incremental costs'' = Some (Fin 0)"
    unfolding t by (rule df_row_B)
  show "loc t ''Intervention B'' ''Incremental QALY'' = Some (Fin 0)"
    unfolding t by (rule df_row_B)
  show "loc t ''Intervention B'' ''ICER'' = Some (Fin 0)"
    unfolding t by (rule df_row_B)
  show "\<exists>r. analyse p = Inr r
             \<and> loc t ''Intervention A'' ''Incremental costs''
                 = Some (Fin (discounted_cost_A r - discounted_cost_B r))
             \<and> loc t ''Intervention A'' ''Incremental QALY''
                 = Some (Fin (qaly_intervention_A p - qaly_intervention_B p))
             \<and> loc t ''Intervention A'' ''ICER'' = Some (icer r)"
    using r unfolding t by (simp add: df_row_A)
qed

theorem summary_table_rows_witness:
  "- 1 < discount_rate base_case
   \<and> (\<exists>out t. script base_case = Inr (out, t))
   \<and> loc (snd (projr (script base_case))) ''Intervention B'' ''Incremental costs'' = Some (Fin 0)
   \<and> loc (snd (projr (script base_case))) ''Intervention B'' ''Incremental QALY'' = Some (Fin 0)
   \<and> loc (snd (projr (script base_case))) ''Intervention B'' ''ICER'' = Some (Fin 0)
   \<and> loc (snd (projr (script base_case))) ''Intervention A'' ''Incremental costs'' = Some (Fin 1287)
   \<and> loc (snd (projr (script base_case))) ''Intervention A'' ''Incremental QALY'' = Some (Fin 0.11)
   \<and> loc (snd (projr (script base_case))) ''Intervention A'' ''ICER'' = Some (Fin 11700)"
  using summary_table_rows [of base_case]
  by (simp add: script_def analyse_base_case df_row_A df_row_B) (simp add: base_case_def)

end
